theory Spec2Isabelle
  imports Main "HOL-Library.Word"
begin

section \<open>JavaScript values as the frontend sees them\<close>

text \<open>
  The frontend (static/app.js) only handles values that come out of \<open>response.json()\<close>,
  out of form fields, or out of a property read. \<open>JNum\<close> holds the integral numbers from
  \<open>-2^53\<close> to \<open>2^53 - 1\<close> as 54-bit signed words: a double holds each of them exactly and
  prints it in plain decimal. Other numbers are outside the model. \<open>JObj\<close> lists the own
  properties of a parsed object in insertion order. Strings are lists of characters with
  code points below 256.
\<close>

datatype jsval =
    JUndefined
  | JNull
  | JBool bool
  | JNum "54 word"
  | JStr string
  | JArr "jsval list"
  | JObj "(string \<times> jsval) list"

datatype js_exn =
    TypeError
  | SyntaxError
  | NetworkFailure
  | Error string

definition then_try :: "js_exn + 'a \<Rightarrow> ('a \<Rightarrow> js_exn + 'b) \<Rightarrow> js_exn + 'b" where
  "then_try r f = (case r of Inl e \<Rightarrow> Inl e | Inr v \<Rightarrow> f v)"

text \<open>ToBoolean: \<open>!x\<close> in the source is \<open>\<not> truthy x\<close>.\<close>

fun truthy :: "jsval \<Rightarrow> bool" where
  "truthy JUndefined = False"
| "truthy JNull = False"
| "truthy (JBool b) = b"
| "truthy (JNum n) = (n \<noteq> 0)"
| "truthy (JStr s) = (s \<noteq> [])"
| "truthy (JArr xs) = True"
| "truthy (JObj kvs) = True"

text \<open>
  A property read \<open>v.name\<close>, for the names the source reads (authenticated, email, length,
  courseName, rating, comments, date): it throws on null and undefined, finds own
  properties of objects, knows \<open>length\<close> of arrays and strings (an array holds fewer than
  \<open>2^32\<close> elements), and is undefined otherwise.
\<close>

fun get_prop :: "jsval \<Rightarrow> string \<Rightarrow> js_exn + jsval" where
  "get_prop JUndefined name = Inl TypeError"
| "get_prop JNull name = Inl TypeError"
| "get_prop (JObj kvs) name = Inr (case map_of kvs name of Some v \<Rightarrow> v | None \<Rightarrow> JUndefined)"
| "get_prop (JArr xs) name = Inr (if name = ''length'' then JNum (of_nat (length xs)) else JUndefined)"
| "get_prop (JStr s) name = Inr (if name = ''length'' then JNum (of_nat (length s)) else JUndefined)"
| "get_prop (JBool b) name = Inr JUndefined"
| "get_prop (JNum n) name = Inr JUndefined"

text \<open>Number-to-string for the integers of the model: plain decimal, a minus sign first.\<close>

fun show_nat :: "nat \<Rightarrow> string" where
  "show_nat n =
     (if n < 10 then [''0123456789'' ! n]
      else show_nat (n div 10) @ [''0123456789'' ! (n mod 10)])"

declare show_nat.simps [simp del]

definition number_string :: "54 word \<Rightarrow> string" where
  "number_string n =
     (if sint n < 0 then CHR ''-'' # show_nat (nat (- sint n)) else show_nat (nat (sint n)))"

text \<open>\<open>Array.prototype.join\<close> on strings.\<close>

fun join :: "string \<Rightarrow> string list \<Rightarrow> string" where
  "join sep [] = []"
| "join sep [x] = x"
| "join sep (x # y # ys) = x @ sep @ join sep (y # ys)"

text \<open>
  ToString, as a template literal and a DOM string attribute apply it. For an object it
  looks for \<open>toString\<close>: a parsed object with an own key of that name has no callable
  one and no other way to a primitive, so the conversion throws; any other parsed object
  prints through \<open>Object.prototype.toString\<close>. An array prints its elements joined by
  commas, from left to right, null and undefined elements as the empty string.
\<close>

fun to_string :: "jsval \<Rightarrow> js_exn + string"
  and join_elements :: "jsval list \<Rightarrow> js_exn + string" where
  "to_string JUndefined = Inr ''undefined''"
| "to_string JNull = Inr ''null''"
| "to_string (JBool b) = Inr (if b then ''true'' else ''false'')"
| "to_string (JNum n) = Inr (number_string n)"
| "to_string (JStr s) = Inr s"
| "to_string (JArr xs) = join_elements xs"
| "to_string (JObj kvs) =
     (if ''toString'' \<in> set (map fst kvs) then Inl TypeError else Inr ''[object Object]'')"
| "join_elements [] = Inr []"
| "join_elements (x # xs) =
     then_try (if x = JNull \<or> x = JUndefined then Inr [] else to_string x) (\<lambda>first.
       if xs = [] then Inr first
       else then_try (join_elements xs) (\<lambda>rest. Inr (first @ '','' @ rest)))"

text \<open>\<open>String.prototype.trim\<close>: white space and line terminators below code point 256.\<close>

definition is_white_space :: "char \<Rightarrow> bool" where
  "is_white_space c \<longleftrightarrow>
     c \<in> {CHR 0x09, CHR 0x0A, CHR 0x0B, CHR 0x0C, CHR 0x0D, CHR 0x20, CHR 0xA0}"

definition trim :: "string \<Rightarrow> string" where
  "trim s = rev (dropWhile is_white_space (rev (dropWhile is_white_space s)))"

section \<open>The DOM fragment behind escapeHtml\<close>

datatype node = Text string

text \<open>
  Assigning to \<open>textContent\<close> converts the value to a nullable DOM string (null and
  undefined become the empty string, anything else goes through ToString, which may throw)
  and replaces the children by one text node, or by none when the string is empty.
\<close>

definition dom_string :: "jsval \<Rightarrow> js_exn + string" where
  "dom_string v = (if v = JNull \<or> v = JUndefined then Inr [] else to_string v)"

definition set_textContent :: "jsval \<Rightarrow> js_exn + node list" where
  "set_textContent v = then_try (dom_string v) (\<lambda>s. Inr (if s = [] then [] else [Text s]))"

text \<open>Reading \<open>innerHTML\<close> serialises the children; text is escaped character by character.\<close>

definition escape_char :: "char \<Rightarrow> string" where
  "escape_char c =
     (if c = CHR ''&'' then ''&amp;''
      else if c = CHR 0xA0 then ''&nbsp;''
      else if c = CHR ''<'' then ''&lt;''
      else if c = CHR ''>'' then ''&gt;''
      else [c])"

definition escape_text :: "string \<Rightarrow> string" where
  "escape_text s = concat (map escape_char s)"

fun serialize_node :: "node \<Rightarrow> string" where
  "serialize_node (Text s) = escape_text s"

definition innerHTML :: "node list \<Rightarrow> string" where
  "innerHTML children = concat (map serialize_node children)"

text \<open>escapeHtml (lines 75-79): a fresh div, its text set, its markup read.\<close>

definition escapeHtml :: "jsval \<Rightarrow> js_exn + string" where
  "escapeHtml text =
     then_try (set_textContent text) (\<lambda>div_children. Inr (innerHTML div_children))"

section \<open>Requests, responses and the page\<close>

record request =
  url :: string
  http_method :: "string option"
  headers :: "(string \<times> string) list"
  credentials :: "string option"
  body :: "jsval option"

text \<open>
  \<open>body\<close> is the value handed to \<open>JSON.stringify\<close>; the request carries its JSON text.
  A response has its \<open>ok\<close> flag and what \<open>response.json()\<close> resolves to or rejects with.
  The network answers each request with a response, or the fetch rejects.
\<close>

record response =
  ok :: bool
  json :: "js_exn + jsval"

type_synonym network = "request \<Rightarrow> js_exn + response"

record notification =
  message :: string
  background :: string

text \<open>
  The page: the assignments made to \<open>window.location.href\<close>, the text of \<open>#userEmail\<close>,
  the markup last assigned to \<open>#feedbackList\<close>, the three form fields and the values a
  form reset gives them, the notifications appended to the body, the console, the
  fetches issued so far, and the exceptions no handler caught. The elements the script
  looks up by id are taken to exist.
\<close>

record page =
  navigations :: "string list"
  userEmail :: string
  feedbackList :: string
  courseName_value :: string
  rating_value :: string
  comments_value :: string
  courseName_default :: string
  rating_default :: string
  comments_default :: string
  notifications :: "notification list"
  console :: "(string \<times> js_exn) list"
  requests :: "request list"
  uncaught :: "js_exn list"

definition fetch :: "network \<Rightarrow> request \<Rightarrow> page \<Rightarrow> (js_exn + response) \<times> page" where
  "fetch net req p = (net req, p\<lparr>requests := requests p @ [req]\<rparr>)"

definition navigate :: "string \<Rightarrow> page \<Rightarrow> page" where
  "navigate href p = p\<lparr>navigations := navigations p @ [href]\<rparr>"

definition console_error :: "string \<Rightarrow> js_exn \<Rightarrow> page \<Rightarrow> page" where
  "console_error label e p = p\<lparr>console := console p @ [(label, e)]\<rparr>"

text \<open>
  showNotification (lines 143-166): the appended element has the message as its text and
  the colour chosen from the type. Its removal after three seconds is not modelled.
\<close>

definition showNotification :: "string \<Rightarrow> string \<Rightarrow> page \<Rightarrow> page" where
  "showNotification msg ntype p =
     (let bgColor = (if ntype = ''error'' then ''#f44336'' else ''#4caf50'')
      in p\<lparr>notifications := notifications p @ [\<lparr>message = msg, background = bgColor\<rparr>]\<rparr>)"

section \<open>checkAuth and init (lines 1-27)\<close>

definition check_auth_request :: request where
  "check_auth_request =
     \<lparr>url = ''/api/check-auth'', http_method = None, headers = [],
      credentials = Some ''include'', body = None\<rparr>"

text \<open>The try block of checkAuth: \<open>None\<close> is the branch that found no authentication.\<close>

definition checkAuth_try :: "js_exn + response \<Rightarrow> js_exn + jsval option" where
  "checkAuth_try res =
     then_try res (\<lambda>response.
     then_try (json response) (\<lambda>data.
     then_try (get_prop data ''authenticated'') (\<lambda>authenticated.
       if \<not> truthy authenticated then Inr None
       else then_try (get_prop data ''email'') (\<lambda>email. Inr (Some email)))))"

definition checkAuth :: "network \<Rightarrow> page \<Rightarrow> jsval \<times> page" where
  "checkAuth net p =
     (let (res, p1) = fetch net check_auth_request p in
      case checkAuth_try res of
        Inr None \<Rightarrow> (JNull, navigate ''/login.html'' p1)
      | Inr (Some email) \<Rightarrow> (email, p1)
      | Inl error \<Rightarrow>
          (JNull, navigate ''/login.html'' (console_error ''Auth check failed:'' error p1)))"

section \<open>loadFeedback (lines 42-73)\<close>

definition get_feedback_request :: request where
  "get_feedback_request =
     \<lparr>url = ''/api/feedback'', http_method = None, headers = [],
      credentials = Some ''include'', body = None\<rparr>"

definition empty_state_html :: string where
  \<open>empty_state_html =
     ''<div class="empty-state">No feedback submitted yet. Be the first to share your thoughts!</div>''\<close>

definition load_failed_html :: string where
  \<open>load_failed_html =
     ''<div class="empty-state">Failed to load feedback. Please try again.</div>''\<close>

text \<open>
  A template literal: its literal chunks and its substitutions, taken from left to right.
  A substitution is the outcome of its expression, put through ToString; the first one
  that throws ends the evaluation.
\<close>

datatype template_part = Lit string | Sub "js_exn + jsval"

fun part_string :: "template_part \<Rightarrow> js_exn + string" where
  "part_string (Lit s) = Inr s"
| "part_string (Sub r) = then_try r to_string"

fun template :: "template_part list \<Rightarrow> js_exn + string" where
  "template [] = Inr []"
| "template (part # parts) =
     then_try (part_string part) (\<lambda>s. then_try (template parts) (\<lambda>rest. Inr (s @ rest)))"

definition item_open :: string where
  \<open>item_open =
     CHR 0x0A # ''            <div class="feedback-item">'' @
     CHR 0x0A # ''                <div class="feedback-course">''\<close>

definition item_rating_open :: string where
  \<open>item_rating_open =
     ''</div>'' @ CHR 0x0A # ''                <span class="feedback-rating">Rating: ''\<close>

definition item_comments_open :: string where
  \<open>item_comments_open =
     ''/5</span>'' @ CHR 0x0A # ''                <div class="feedback-comments">''\<close>

definition item_date_open :: string where
  \<open>item_date_open =
     ''</div>'' @ CHR 0x0A # ''                <div class="feedback-date">Submitted on ''\<close>

definition item_close :: string where
  \<open>item_close =
     ''</div>'' @ CHR 0x0A # ''            </div>'' @ CHR 0x0A # ''        ''\<close>

text \<open>The arrow function given to \<open>feedbacks.map\<close> (lines 61-68).\<close>

definition render_feedback :: "jsval \<Rightarrow> js_exn + string" where
  "render_feedback feedback =
     template
       [Lit item_open,
        Sub (then_try (get_prop feedback ''courseName'') (\<lambda>courseName.
             then_try (escapeHtml courseName) (\<lambda>html. Inr (JStr html)))),
        Lit item_rating_open,
        Sub (get_prop feedback ''rating''),
        Lit item_comments_open,
        Sub (then_try (get_prop feedback ''comments'') (\<lambda>comments.
             then_try (escapeHtml comments) (\<lambda>html. Inr (JStr html)))),
        Lit item_date_open,
        Sub (get_prop feedback ''date''),
        Lit item_close]"

text \<open>\<open>Array.prototype.map\<close> with a callback that may throw: the first exception ends it.\<close>

fun map_callback :: "('a \<Rightarrow> js_exn + 'b) \<Rightarrow> 'a list \<Rightarrow> js_exn + 'b list" where
  "map_callback f [] = Inr []"
| "map_callback f (x # xs) =
     then_try (f x) (\<lambda>y. then_try (map_callback f xs) (\<lambda>ys. Inr (y # ys)))"

text \<open>
  The try block of loadFeedback after the fetch: the markup it assigns, or the exception
  it throws. Only an array has a \<open>map\<close> function; calling it on anything else is a TypeError.
\<close>

definition loadFeedback_try :: "js_exn + response \<Rightarrow> js_exn + string" where
  "loadFeedback_try res =
     then_try res (\<lambda>response.
       if \<not> ok response then Inl (Error ''Failed to load feedback'')
       else
     then_try (json response) (\<lambda>feedbacks.
     then_try (get_prop feedbacks ''length'') (\<lambda>len.
       if len = JNum 0 then Inr empty_state_html
       else (case feedbacks of
               JArr items \<Rightarrow> then_try (map_callback render_feedback items) (\<lambda>htmls. Inr (join [] htmls))
             | _ \<Rightarrow> Inl TypeError))))"

definition loadFeedback :: "network \<Rightarrow> page \<Rightarrow> page" where
  "loadFeedback net p =
     (let (res, p1) = fetch net get_feedback_request p in
      case loadFeedback_try res of
        Inr html \<Rightarrow> p1\<lparr>feedbackList := html\<rparr>
      | Inl error \<Rightarrow>
          (console_error ''Failed to load feedback:'' error p1)\<lparr>feedbackList := load_failed_html\<rparr>)"

text \<open>
  init (lines 21-27). Setting the text of \<open>#userEmail\<close> converts the email to a string;
  when that throws, nothing catches it and the list is never loaded.
\<close>

definition init :: "network \<Rightarrow> page \<Rightarrow> page" where
  "init net p =
     (let (email, p1) = checkAuth net p in
      if \<not> truthy email then p1
      else
        (case dom_string email of
           Inl error \<Rightarrow> p1\<lparr>uncaught := uncaught p1 @ [error]\<rparr>
         | Inr text \<Rightarrow> loadFeedback net (p1\<lparr>userEmail := text\<rparr>)))"

section \<open>The logout button (lines 29-40)\<close>

definition logout_request :: request where
  "logout_request =
     \<lparr>url = ''/api/logout'', http_method = Some ''POST'', headers = [],
      credentials = Some ''include'', body = None\<rparr>"

definition logoutBtn_click :: "network \<Rightarrow> page \<Rightarrow> page" where
  "logoutBtn_click net p =
     (let (res, p1) = fetch net logout_request p in
      case res of
        Inr response \<Rightarrow> navigate ''/login.html'' p1
      | Inl error \<Rightarrow> navigate ''/login.html'' (console_error ''Logout failed:'' error p1))"

section \<open>The feedback form (lines 81-118)\<close>

text \<open>
  The listener first prevents the browser's own submission of the form; from then on
  everything it does is below. The body of the request is the object it serialises, its
  three values strings.
\<close>

definition submit_request :: "string \<Rightarrow> string \<Rightarrow> string \<Rightarrow> request" where
  "submit_request courseName rating comments =
     \<lparr>url = ''/api/feedback'', http_method = Some ''POST'',
      headers = [(''Content-Type'', ''application/json'')],
      credentials = Some ''include'',
      body = Some (JObj [(''courseName'', JStr courseName),
                         (''rating'', JStr rating),
                         (''comments'', JStr comments)])\<rparr>"

definition form_reset :: "page \<Rightarrow> page" where
  "form_reset p =
     p\<lparr>courseName_value := courseName_default p,
       rating_value := rating_default p,
       comments_value := comments_default p\<rparr>"

definition feedbackForm_submit :: "network \<Rightarrow> page \<Rightarrow> page" where
  "feedbackForm_submit net p =
     (let courseName = trim (courseName_value p);
          rating = rating_value p;
          comments = trim (comments_value p)
      in if courseName = [] \<or> rating = [] \<or> comments = []
         then showNotification ''Please fill in all fields'' ''error'' p
         else
           (let (res, p1) = fetch net (submit_request courseName rating comments) p in
            case then_try res (\<lambda>response.
                   if \<not> ok response then Inl (Error ''Failed to submit feedback'')
                   else Inr response) of
              Inr response \<Rightarrow>
                showNotification ''Feedback submitted successfully!'' ''success''
                  (loadFeedback net (form_reset p1))
            | Inl error \<Rightarrow>
                showNotification ''Failed to submit feedback. Please try again.'' ''error''
                  (console_error ''Failed to submit feedback:'' error p1)))"

section \<open>The clear button (lines 120-141)\<close>

definition clear_request :: request where
  "clear_request =
     \<lparr>url = ''/api/feedback/clear'', http_method = Some ''DELETE'', headers = [],
      credentials = Some ''include'', body = None\<rparr>"

text \<open>\<open>confirmed\<close> is the user's answer to the confirmation dialog.\<close>

definition clearBtn_click :: "bool \<Rightarrow> network \<Rightarrow> page \<Rightarrow> page" where
  "clearBtn_click confirmed net p =
     (if \<not> confirmed then p
      else
        (let (res, p1) = fetch net clear_request p in
         case then_try res (\<lambda>response.
                if \<not> ok response then Inl (Error ''Failed to clear feedback'')
                else Inr response) of
           Inr response \<Rightarrow>
             showNotification ''All feedback cleared!'' ''success'' (loadFeedback net p1)
         | Inl error \<Rightarrow>
             showNotification ''Failed to clear feedback. Please try again.'' ''error''
               (console_error ''Failed to clear feedback:'' error p1)))"

section \<open>Events of the page\<close>

text \<open>
  What can happen on the page: the script's own call of init when it is loaded, the three
  listeners, and the user typing into the form. Each event meets the network of its moment.
\<close>

datatype event =
    PageLoad
  | LogoutClick
  | FormSubmit
  | ClearClick bool
  | FormInput string string string

fun handle :: "network \<Rightarrow> event \<Rightarrow> page \<Rightarrow> page" where
  "handle net PageLoad p = init net p"
| "handle net LogoutClick p = logoutBtn_click net p"
| "handle net FormSubmit p = feedbackForm_submit net p"
| "handle net (ClearClick confirmed) p = clearBtn_click confirmed net p"
| "handle net (FormInput c r m) p =
     p\<lparr>courseName_value := c, rating_value := r, comments_value := m\<rparr>"

fun run :: "(network \<times> event) list \<Rightarrow> page \<Rightarrow> page" where
  "run [] p = p"
| "run ((net, ev) # rest) p = run rest (handle net ev p)"

text \<open>The fetches issued between an earlier page \<open>p\<close> and a later page \<open>p'\<close>.\<close>

definition issued :: "page \<Rightarrow> page \<Rightarrow> request list" where
  "issued p p' = drop (length (requests p)) (requests p')"

text \<open>
  The guard of the submit listener (line 88) and the request it sends otherwise
  (lines 94-105), read off the form fields of a page.
\<close>

definition fields_blank :: "page \<Rightarrow> bool" where
  "fields_blank p \<longleftrightarrow>
     trim (courseName_value p) = [] \<or> rating_value p = [] \<or> trim (comments_value p) = []"

definition post_of :: "page \<Rightarrow> request" where
  "post_of p =
     submit_request (trim (courseName_value p)) (rating_value p) (trim (comments_value p))"

section \<open>Vocabulary of the specification\<close>

text \<open>
  A request has failed when the fetch threw or the response is not ok; the authentication
  check reports an authenticated visitor when its JSON answer carries a truthy
  \<open>authenticated\<close> flag (for the boolean flag of the API: \<open>true\<close>).
\<close>

definition request_failed :: "js_exn + response \<Rightarrow> bool" where
  "request_failed res = (case res of Inl e \<Rightarrow> True | Inr response \<Rightarrow> \<not> ok response)"

definition reports_authenticated :: "js_exn + response \<Rightarrow> bool" where
  "reports_authenticated res =
     (case res of
        Inl e \<Rightarrow> False
      | Inr response \<Rightarrow>
          (case json response of
             Inl e \<Rightarrow> False
           | Inr data \<Rightarrow>
               (case get_prop data ''authenticated'' of
                  Inl e \<Rightarrow> False
                | Inr flag \<Rightarrow> truthy flag)))"

text \<open>The \<open>email\<close> property of the check's JSON answer, undefined when there is none.\<close>

definition reported_email :: "js_exn + response \<Rightarrow> jsval" where
  "reported_email res =
     (case res of
        Inl e \<Rightarrow> JUndefined
      | Inr response \<Rightarrow>
          (case json response of
             Inl e \<Rightarrow> JUndefined
           | Inr data \<Rightarrow>
               (case get_prop data ''email'' of
                  Inl e \<Rightarrow> JUndefined
                | Inr email \<Rightarrow> email)))"

text \<open>The keys of a request's JSON body, and the value under one of them.\<close>

definition body_keys :: "request \<Rightarrow> string list" where
  "body_keys req = (case body req of Some (JObj kvs) \<Rightarrow> map fst kvs | _ \<Rightarrow> [])"

definition body_field :: "request \<Rightarrow> string \<Rightarrow> jsval option" where
  "body_field req name = (case body req of Some (JObj kvs) \<Rightarrow> map_of kvs name | _ \<Rightarrow> None)"

text \<open>A JSON value that is an integer in a closed range, as the data model words it.\<close>

fun integer_between :: "int \<Rightarrow> int \<Rightarrow> jsval \<Rightarrow> bool" where
  "integer_between lo hi (JNum n) = (lo \<le> sint n \<and> sint n \<le> hi)"
| "integer_between lo hi v = False"

text \<open>\<open>own\<close> reads an own property of a parsed object.\<close>

definition own :: "(string \<times> jsval) list \<Rightarrow> string \<Rightarrow> jsval" where
  "own kvs name = (case map_of kvs name of Some v \<Rightarrow> v | None \<Rightarrow> JUndefined)"

text \<open>
  A feedback as the API returns it (section 6): an object whose courseName, comments and
  date are strings and whose rating is a number. \<open>field\<close>, \<open>text_of\<close> and \<open>number_of\<close> read it.
\<close>

definition field :: "jsval \<Rightarrow> string \<Rightarrow> jsval" where
  "field v name = (case v of JObj kvs \<Rightarrow> own kvs name | _ \<Rightarrow> JUndefined)"

definition is_text :: "jsval \<Rightarrow> bool" where
  "is_text v = (case v of JStr s \<Rightarrow> True | _ \<Rightarrow> False)"

definition is_number :: "jsval \<Rightarrow> bool" where
  "is_number v = (case v of JNum n \<Rightarrow> True | _ \<Rightarrow> False)"

definition text_of :: "jsval \<Rightarrow> string" where
  "text_of v = (case v of JStr s \<Rightarrow> s | _ \<Rightarrow> [])"

definition number_of :: "jsval \<Rightarrow> 54 word" where
  "number_of v = (case v of JNum n \<Rightarrow> n | _ \<Rightarrow> 0)"

definition is_object :: "jsval \<Rightarrow> bool" where
  "is_object v = (case v of JObj kvs \<Rightarrow> True | _ \<Rightarrow> False)"

definition is_feedback :: "jsval \<Rightarrow> bool" where
  "is_feedback v \<longleftrightarrow>
     is_object v \<and> is_text (field v ''courseName'') \<and> is_number (field v ''rating'') \<and>
     is_text (field v ''comments'') \<and> is_text (field v ''date'')"

text \<open>
  The markup one returned feedback is shown as: its courseName, rating, comments and date
  between the fixed chunks of the item, courseName and comments written as HTML text.
\<close>

definition feedback_markup :: "jsval \<Rightarrow> string" where
  "feedback_markup v =
     item_open @ escape_text (text_of (field v ''courseName'')) @
     item_rating_open @ number_string (number_of (field v ''rating'')) @
     item_comments_open @ escape_text (text_of (field v ''comments'')) @
     item_date_open @ text_of (field v ''date'') @
     item_close"


text \<open>An email that init can render: truthy, and convertible to a string.\<close>

definition renders :: "jsval \<Rightarrow> bool" where
  "renders v \<longleftrightarrow> truthy v \<and> (case dom_string v of Inl e \<Rightarrow> False | Inr s \<Rightarrow> True)"

section \<open>The Feedback Repository\<close>

text \<open>
  Modelled from the spec: the Feedback Repository of the backend (app.py), which is not
  among the sources. Section 3 gives the Feedback fields, section 4.2 the three operations:
  \<open>list(ownerId)\<close> returns the owner's feedback newest first by \<open>createdAt\<close>;
  \<open>create\<close> rejects an empty courseName or comments and a rating outside [1,5] before
  persisting, generates the id and stamps the insertion time; \<open>clearAll(ownerId)\<close> deletes
  every feedback of the owner and returns how many.
\<close>

record feedback =
  feedback_id :: nat
  ownerId :: nat
  courseName :: string
  rating :: int
  comments :: string
  createdAt :: nat

record repository =
  rows :: "feedback list"
  next_id :: nat

datatype repo_error = ValidationError

text \<open>
  Modelled from the spec: \<open>list(ownerId)\<close> of section 4.2, the owner's feedback newest
  first by \<open>createdAt\<close>.
\<close>

definition list_feedback :: "repository \<Rightarrow> nat \<Rightarrow> feedback list" where
  "list_feedback repo owner =
     rev (sort_key createdAt (filter (\<lambda>f. ownerId f = owner) (rows repo)))"

text \<open>
  Modelled from the spec: \<open>create(ownerId, courseName, rating, comments)\<close> of section 4.2,
  which validates before persisting; \<open>now\<close> is the insertion time.
\<close>

definition create :: "repository \<Rightarrow> nat \<Rightarrow> string \<Rightarrow> int \<Rightarrow> string \<Rightarrow> nat
    \<Rightarrow> repo_error + feedback \<times> repository" where
  "create repo owner cname r cmts now =
     (if cname = [] \<or> cmts = [] \<or> r < 1 \<or> 5 < r then Inl ValidationError
      else
        (let f = \<lparr>feedback_id = next_id repo, ownerId = owner, courseName = cname,
                  rating = r, comments = cmts, createdAt = now\<rparr>
         in Inr (f, \<lparr>rows = rows repo @ [f], next_id = Suc (next_id repo)\<rparr>)))"

text \<open>
  Modelled from the spec: \<open>clearAll(ownerId)\<close> of section 4.2, which deletes every
  feedback of the owner and returns the count.
\<close>

definition clearAll :: "repository \<Rightarrow> nat \<Rightarrow> nat \<times> repository" where
  "clearAll repo owner =
     (length (filter (\<lambda>f. ownerId f = owner) (rows repo)),
      repo\<lparr>rows := filter (\<lambda>f. ownerId f \<noteq> owner) (rows repo)\<rparr>)"

text \<open>The calls the API layer makes on behalf of a session, each scoped to one owner.\<close>

datatype repo_op =
    List nat
  | Create nat string int string nat
  | ClearAll nat

fun op_owner :: "repo_op \<Rightarrow> nat" where
  "op_owner (List owner) = owner"
| "op_owner (Create owner cname r cmts now) = owner"
| "op_owner (ClearAll owner) = owner"

fun apply_op :: "repo_op \<Rightarrow> repository \<Rightarrow> repository" where
  "apply_op (List owner) repo = repo"
| "apply_op (Create owner cname r cmts now) repo =
     (case create repo owner cname r cmts now of
        Inl e \<Rightarrow> repo
      | Inr (f, repo') \<Rightarrow> repo')"
| "apply_op (ClearAll owner) repo = snd (clearAll repo owner)"

fun apply_ops :: "repo_op list \<Rightarrow> repository \<Rightarrow> repository" where
  "apply_ops [] repo = repo"
| "apply_ops (x # xs) repo = apply_ops xs (apply_op x repo)"

section \<open>Concrete pages and networks\<close>

definition page0 :: page where
  "page0 =
     \<lparr>navigations = [], userEmail = [], feedbackList = [],
      courseName_value = [], rating_value = [], comments_value = [],
      courseName_default = [], rating_default = [], comments_default = [],
      notifications = [], console = [], requests = [], uncaught = []\<rparr>"

definition filled_page :: "string \<Rightarrow> string \<Rightarrow> string \<Rightarrow> page" where
  "filled_page c r m = page0\<lparr>courseName_value := c, rating_value := r, comments_value := m\<rparr>"

definition net_down :: network where
  "net_down req = Inl NetworkFailure"

definition cs101 :: jsval where
  "cs101 =
     JObj [(''courseName'', JStr ''CS101 <intro>''), (''rating'', JNum 5),
           (''comments'', JStr ''Great & clear''), (''date'', JStr ''2025-11-15 10:00'')]"

definition math2 :: jsval where
  "math2 =
     JObj [(''courseName'', JStr ''Math''), (''rating'', JNum 4),
           (''comments'', JStr ''ok''), (''date'', JStr ''2025-11-14 09:30'')]"


text \<open>A server with a session for a@x.com that returns the given feedback list.\<close>

definition net_session :: "jsval list \<Rightarrow> network" where
  "net_session items req =
     (if url req = ''/api/check-auth''
      then Inr \<lparr>ok = True,
                json = Inr (JObj [(''authenticated'', JBool True), (''email'', JStr ''a@x.com'')])\<rparr>
      else if url req = ''/api/feedback'' \<and> http_method req = None
      then Inr \<lparr>ok = True, json = Inr (JArr items)\<rparr>
      else Inr \<lparr>ok = True, json = Inr (JObj [(''success'', JBool True)])\<rparr>)"

text \<open>A server without a session: check-auth says so, the feedback routes answer 401.\<close>

definition net_anonymous :: network where
  "net_anonymous req =
     (if url req = ''/api/check-auth''
      then Inr \<lparr>ok = True, json = Inr (JObj [(''authenticated'', JBool False)])\<rparr>
      else if url req = ''/api/logout''
      then Inr \<lparr>ok = True, json = Inr (JObj [(''success'', JBool True)])\<rparr>
      else Inr \<lparr>ok = False, json = Inr (JObj [(''error'', JStr ''Not authenticated'')])\<rparr>)"

text \<open>
  A server whose check-auth answers with an error status although its body carries the
  flag and the email of a session.
\<close>

definition net_check_not_ok :: network where
  "net_check_not_ok req =
     (if url req = ''/api/check-auth''
      then Inr \<lparr>ok = False,
                json = Inr (JObj [(''authenticated'', JBool True), (''email'', JStr ''a@x.com'')])\<rparr>
      else Inr \<lparr>ok = True, json = Inr (JArr [])\<rparr>)"

definition repo0 :: repository where
  "repo0 = \<lparr>rows = [], next_id = 1\<rparr>"

text \<open>A visit: load, fill the form, submit, clear, and log out while the network is down.\<close>

definition session_events :: "(network \<times> event) list" where
  "session_events =
     [(net_session [], PageLoad),
      (net_session [], FormInput ''CS101'' ''5'' ''Great course''),
      (net_session [cs101], FormSubmit),
      (net_session [], ClearClick True),
      (net_down, LogoutClick)]"

text \<open>A server whose feedback list cannot be fetched while every other route answers.\<close>

definition net_list_down :: network where
  "net_list_down req =
     (if url req = ''/api/feedback'' \<and> http_method req = None then Inl NetworkFailure
      else Inr \<lparr>ok = True, json = Inr (JObj [(''success'', JBool True)])\<rparr>)"

text \<open>The feedback of the round-trip scenario of section 8, owned by user 1.\<close>

definition cs101_row :: feedback where
  "cs101_row =
     \<lparr>feedback_id = 1, ownerId = 1, courseName = ''CS101'', rating = 5,
      comments = ''Great course'', createdAt = 10\<rparr>"

definition repo1 :: repository where
  "repo1 = \<lparr>rows = [cs101_row], next_id = 2\<rparr>"

section \<open>Effects of the helpers and listeners\<close>

lemma requests_showNotification [simp]: "requests (showNotification m t p) = requests p"
  and navigations_showNotification [simp]: "navigations (showNotification m t p) = navigations p"
  and feedbackList_showNotification [simp]: "feedbackList (showNotification m t p) = feedbackList p"
  by (simp_all add: showNotification_def Let_def)

lemma notifications_showNotification [simp]:
  "notifications (showNotification m t p) =
     notifications p @ [\<lparr>message = m, background = (if t = ''error'' then ''#f44336'' else ''#4caf50'')\<rparr>]"
  by (simp add: showNotification_def Let_def)

lemma requests_console_error [simp]: "requests (console_error l e p) = requests p"
  and navigations_console_error [simp]: "navigations (console_error l e p) = navigations p"
  and notifications_console_error [simp]: "notifications (console_error l e p) = notifications p"
  and feedbackList_console_error [simp]: "feedbackList (console_error l e p) = feedbackList p"
  and userEmail_console_error [simp]: "userEmail (console_error l e p) = userEmail p"
  by (simp_all add: console_error_def)

lemma requests_navigate [simp]: "requests (navigate h p) = requests p"
  and navigations_navigate [simp]: "navigations (navigate h p) = navigations p @ [h]"
  and feedbackList_navigate [simp]: "feedbackList (navigate h p) = feedbackList p"
  and userEmail_navigate [simp]: "userEmail (navigate h p) = userEmail p"
  by (simp_all add: navigate_def)

lemma requests_form_reset [simp]: "requests (form_reset p) = requests p"
  and navigations_form_reset [simp]: "navigations (form_reset p) = navigations p"
  and notifications_form_reset [simp]: "notifications (form_reset p) = notifications p"
  by (simp_all add: form_reset_def)

lemma requests_loadFeedback [simp]:
  "requests (loadFeedback net p) = requests p @ [get_feedback_request]"
  by (simp add: loadFeedback_def fetch_def split: sum.split)

lemma navigations_loadFeedback [simp]: "navigations (loadFeedback net p) = navigations p"
  by (simp add: loadFeedback_def fetch_def split: sum.split)

lemma notifications_loadFeedback [simp]: "notifications (loadFeedback net p) = notifications p"
  by (simp add: loadFeedback_def fetch_def split: sum.split)

lemma feedbackList_loadFeedback:
  "feedbackList (loadFeedback net p) =
     (case loadFeedback_try (net get_feedback_request) of
        Inr html \<Rightarrow> html | Inl e \<Rightarrow> load_failed_html)"
  by (simp add: loadFeedback_def fetch_def split: sum.split)

lemma issued_self [simp]: "issued p p = []"
  by (simp add: issued_def)

lemma issued_append: "requests p' = requests p @ new \<Longrightarrow> issued p p' = new"
  by (simp add: issued_def)

lemma requests_clearBtn_click:
  "requests (clearBtn_click c net p) =
     requests p @ (if c then clear_request # (if request_failed (net clear_request) then [] else [get_feedback_request]) else [])"
  by (simp add: clearBtn_click_def fetch_def then_try_def request_failed_def split: sum.split)

lemma get_prop_email_defined:
  "get_prop data ''authenticated'' = Inr flag \<Longrightarrow> \<exists>email. get_prop data ''email'' = Inr email"
  by (cases data) simp_all

lemma checkAuth_try_rejected:
  "\<not> reports_authenticated res \<Longrightarrow> checkAuth_try res \<noteq> Inr (Some email)"
  by (auto simp add: reports_authenticated_def checkAuth_try_def then_try_def
      split: sum.splits if_splits)

lemma checkAuth_try_accepted:
  "reports_authenticated res \<Longrightarrow> checkAuth_try res = Inr (Some (reported_email res))"
  by (auto simp add: reports_authenticated_def reported_email_def checkAuth_try_def then_try_def
      split: sum.splits dest: get_prop_email_defined)

lemma checkAuth_rejected:
  assumes "\<not> reports_authenticated (net check_auth_request)"
  shows "fst (checkAuth net p) = JNull"
    and "requests (snd (checkAuth net p)) = requests p @ [check_auth_request]"
    and "navigations (snd (checkAuth net p)) = navigations p @ [''/login.html'']"
    and "userEmail (snd (checkAuth net p)) = userEmail p"
    and "feedbackList (snd (checkAuth net p)) = feedbackList p"
  using checkAuth_try_rejected [OF assms]
  by (simp_all add: checkAuth_def fetch_def split: sum.split option.split)

lemma checkAuth_accepted:
  assumes "reports_authenticated (net check_auth_request)"
  shows "checkAuth net p =
           (reported_email (net check_auth_request), p\<lparr>requests := requests p @ [check_auth_request]\<rparr>)"
  by (simp add: checkAuth_def fetch_def checkAuth_try_accepted [OF assms])

lemma init_rejected:
  assumes "\<not> reports_authenticated (net check_auth_request)"
  shows "init net p = snd (checkAuth net p)"
proof -
  obtain email p1 where c: "checkAuth net p = (email, p1)"
    by (cases "checkAuth net p")
  have "email = JNull"
    using checkAuth_rejected(1) [of net p] assms c by simp
  then show ?thesis
    by (simp add: init_def c)
qed

lemma init_accepted:
  assumes "reports_authenticated (net check_auth_request)"
  shows "init net p =
           (if truthy (reported_email (net check_auth_request))
            then (case dom_string (reported_email (net check_auth_request)) of
                    Inl error \<Rightarrow>
                      p\<lparr>requests := requests p @ [check_auth_request],
                        uncaught := uncaught p @ [error]\<rparr>
                  | Inr text \<Rightarrow>
                      loadFeedback net
                        (p\<lparr>requests := requests p @ [check_auth_request], userEmail := text\<rparr>))
            else p\<lparr>requests := requests p @ [check_auth_request]\<rparr>)"
  using checkAuth_accepted [of net p] assms
  by (simp add: init_def split: sum.split)

lemma userEmail_loadFeedback [simp]: "userEmail (loadFeedback net p) = userEmail p"
  by (simp add: loadFeedback_def fetch_def split: sum.split)

lemma init_rendered:
  assumes "reports_authenticated (net check_auth_request)"
    and "truthy (reported_email (net check_auth_request))"
    and "dom_string (reported_email (net check_auth_request)) = Inr text"
  shows "init net p =
           loadFeedback net (p\<lparr>requests := requests p @ [check_auth_request], userEmail := text\<rparr>)"
  using assms by (simp add: init_accepted)

lemma init_not_rendered:
  assumes "reports_authenticated (net check_auth_request)"
    and "\<not> renders (reported_email (net check_auth_request))"
  shows "requests (init net p) = requests p @ [check_auth_request]"
    and "userEmail (init net p) = userEmail p"
    and "feedbackList (init net p) = feedbackList p"
  using assms by (simp_all add: init_accepted renders_def split: sum.splits)

lemma renders_text:
  "renders v \<Longrightarrow> \<exists>text. truthy v \<and> dom_string v = Inr text"
  by (cases "dom_string v") (simp_all add: renders_def)

lemma requests_init:
  "requests (init net p) =
     requests p @ check_auth_request #
       (if reports_authenticated (net check_auth_request) \<and>
           renders (reported_email (net check_auth_request))
        then [get_feedback_request] else [])"
proof (cases "reports_authenticated (net check_auth_request)")
  case False
  then show ?thesis
    by (simp add: init_rejected checkAuth_rejected)
next
  case True
  show ?thesis
  proof (cases "renders (reported_email (net check_auth_request))")
    case False
    then show ?thesis
      using True by (simp add: init_not_rendered)
  next
    case shown: True
    then obtain str where "truthy (reported_email (net check_auth_request))"
      "dom_string (reported_email (net check_auth_request)) = Inr str"
      using renders_text by blast
    then show ?thesis
      using True shown by (simp add: init_rendered)
  qed
qed

lemma navigations_init:
  "navigations (init net p) =
     navigations p @
       (if reports_authenticated (net check_auth_request) then [] else [''/login.html''])"
  by (cases "reports_authenticated (net check_auth_request)")
     (simp_all add: init_accepted init_rejected checkAuth_rejected split: sum.split)

lemma userEmail_init_unchanged:
  "\<not> (reports_authenticated (net check_auth_request) \<and>
       renders (reported_email (net check_auth_request))) \<Longrightarrow>
     userEmail (init net p) = userEmail p"
  by (cases "reports_authenticated (net check_auth_request)")
     (simp_all add: init_not_rendered init_rejected checkAuth_rejected)

lemma feedbackList_init_rejected:
  "\<not> reports_authenticated (net check_auth_request) \<Longrightarrow>
     feedbackList (init net p) = feedbackList p"
  by (simp add: init_rejected checkAuth_rejected)

lemma requests_logoutBtn_click:
  "requests (logoutBtn_click net p) = requests p @ [logout_request]"
  by (simp add: logoutBtn_click_def fetch_def split: sum.split)

lemma navigations_logoutBtn_click:
  "navigations (logoutBtn_click net p) = navigations p @ [''/login.html'']"
  by (simp add: logoutBtn_click_def fetch_def split: sum.split)

lemma feedbackForm_submit_blank:
  "fields_blank p \<Longrightarrow>
     feedbackForm_submit net p = showNotification ''Please fill in all fields'' ''error'' p"
  by (simp add: feedbackForm_submit_def fields_blank_def Let_def)

lemma feedbackForm_submit_failed:
  "\<not> fields_blank p \<Longrightarrow> net (post_of p) = Inl e \<Longrightarrow>
     feedbackForm_submit net p =
       showNotification ''Failed to submit feedback. Please try again.'' ''error''
         (console_error ''Failed to submit feedback:'' e
            (p\<lparr>requests := requests p @ [post_of p]\<rparr>))"
  by (simp add: feedbackForm_submit_def fields_blank_def post_of_def Let_def fetch_def then_try_def)

lemma feedbackForm_submit_not_ok:
  "\<not> fields_blank p \<Longrightarrow> net (post_of p) = Inr response \<Longrightarrow> \<not> ok response \<Longrightarrow>
     feedbackForm_submit net p =
       showNotification ''Failed to submit feedback. Please try again.'' ''error''
         (console_error ''Failed to submit feedback:'' (Error ''Failed to submit feedback'')
            (p\<lparr>requests := requests p @ [post_of p]\<rparr>))"
  by (simp add: feedbackForm_submit_def fields_blank_def post_of_def Let_def fetch_def then_try_def)

lemma feedbackForm_submit_ok:
  "\<not> fields_blank p \<Longrightarrow> net (post_of p) = Inr response \<Longrightarrow> ok response \<Longrightarrow>
     feedbackForm_submit net p =
       showNotification ''Feedback submitted successfully!'' ''success''
         (loadFeedback net (form_reset (p\<lparr>requests := requests p @ [post_of p]\<rparr>)))"
  by (simp add: feedbackForm_submit_def fields_blank_def post_of_def Let_def fetch_def then_try_def)

lemma submit_cases:
  obtains (blank) "fields_blank p"
  | (rejected) e where "\<not> fields_blank p" "net (post_of p) = Inl e"
  | (not_ok) response where "\<not> fields_blank p" "net (post_of p) = Inr response" "\<not> ok response"
  | (accepted) response where "\<not> fields_blank p" "net (post_of p) = Inr response" "ok response"
  by (cases "net (post_of p)") auto

lemma requests_feedbackForm_submit:
  "requests (feedbackForm_submit net p) =
     requests p @
       (if fields_blank p then []
        else post_of p #
               (if request_failed (net (post_of p)) then [] else [get_feedback_request]))"
  by (rule submit_cases [where p = p and net = net])
     (simp_all add: feedbackForm_submit_blank feedbackForm_submit_failed
        feedbackForm_submit_not_ok feedbackForm_submit_ok request_failed_def)

lemma navigations_feedbackForm_submit:
  "navigations (feedbackForm_submit net p) = navigations p"
  by (rule submit_cases [where p = p and net = net])
     (simp_all add: feedbackForm_submit_blank feedbackForm_submit_failed
        feedbackForm_submit_not_ok feedbackForm_submit_ok)

lemma anonymous_not_authenticated:
  "\<not> reports_authenticated (net_anonymous check_auth_request)"
  by (simp add: reports_authenticated_def net_anonymous_def check_auth_request_def)

lemma down_not_authenticated:
  "\<not> reports_authenticated (net_down check_auth_request)"
  by (simp add: reports_authenticated_def net_down_def)

lemma session_authenticated:
  "reports_authenticated (net_session items check_auth_request)"
  "reported_email (net_session items check_auth_request) = JStr ''a@x.com''"
  by (simp_all add: reports_authenticated_def reported_email_def net_session_def check_auth_request_def)

lemma credentials_of_requests:
  "credentials check_auth_request = Some ''include''"
  "credentials logout_request = Some ''include''"
  "credentials get_feedback_request = Some ''include''"
  "credentials (submit_request c r m) = Some ''include''"
  "credentials clear_request = Some ''include''"
  by (simp_all add: check_auth_request_def logout_request_def get_feedback_request_def
      submit_request_def clear_request_def)

lemma requests_handle:
  "\<exists>new. requests (handle net ev p) = requests p @ new \<and>
         (\<forall>r \<in> set new. credentials r = Some ''include'')"
proof (cases ev)
  case PageLoad
  then show ?thesis
    by (simp add: requests_init credentials_of_requests)
next
  case LogoutClick
  then show ?thesis
    by (simp add: requests_logoutBtn_click credentials_of_requests)
next
  case FormSubmit
  then show ?thesis
    by (simp add: requests_feedbackForm_submit post_of_def credentials_of_requests)
next
  case (ClearClick confirmed)
  then show ?thesis
    by (auto simp add: requests_clearBtn_click credentials_of_requests)
next
  case (FormInput c r m)
  then show ?thesis by simp
qed

lemma requests_run:
  "\<exists>new. requests (run evs p) = requests p @ new \<and>
         (\<forall>r \<in> set new. credentials r = Some ''include'')"
proof (induction evs arbitrary: p)
  case Nil
  then show ?case by simp
next
  case (Cons step evs)
  obtain net ev where step: "step = (net, ev)"
    by (cases step)
  obtain first where first: "requests (handle net ev p) = requests p @ first"
    "\<forall>r \<in> set first. credentials r = Some ''include''"
    using requests_handle by blast
  obtain later where later: "requests (run evs (handle net ev p)) = requests (handle net ev p) @ later"
    "\<forall>r \<in> set later. credentials r = Some ''include''"
    using Cons.IH by blast
  have "requests (run (step # evs) p) = requests p @ (first @ later)"
    by (simp add: step first later)
  moreover have "\<forall>r \<in> set (first @ later). credentials r = Some ''include''"
    using first later by auto
  ultimately show ?case by blast
qed

lemma trim_simple: "trim ''CS101'' = ''CS101''" "trim ''Great course'' = ''Great course''"
  by (simp_all add: trim_def is_white_space_def)

lemma loadFeedback_try_failed:
  "request_failed res \<Longrightarrow> \<exists>e. loadFeedback_try res = Inl e"
  by (cases res) (simp_all add: request_failed_def loadFeedback_try_def then_try_def)

lemma feedbackList_loadFeedback_failed:
  "request_failed (net get_feedback_request) \<Longrightarrow>
     feedbackList (loadFeedback net p) = load_failed_html"
  using loadFeedback_try_failed [of "net get_feedback_request"]
  by (auto simp add: feedbackList_loadFeedback)

lemma notifications_submit_failed:
  assumes "\<not> fields_blank p" and "request_failed (net (post_of p))"
  shows "notifications (feedbackForm_submit net p) =
           notifications p @
             [\<lparr>message = ''Failed to submit feedback. Please try again.'',
               background = ''#f44336''\<rparr>]"
proof (cases "net (post_of p)")
  case (Inl e)
  then show ?thesis
    using assms by (simp add: feedbackForm_submit_failed)
next
  case (Inr response)
  then have "\<not> ok response"
    using assms by (simp add: request_failed_def)
  then show ?thesis
    using assms Inr by (simp add: feedbackForm_submit_not_ok)
qed

lemma clearBtn_click_failed:
  assumes "request_failed (net clear_request)"
  shows "\<exists>e. clearBtn_click True net p =
           showNotification ''Failed to clear feedback. Please try again.'' ''error''
             (console_error ''Failed to clear feedback:'' e
                (p\<lparr>requests := requests p @ [clear_request]\<rparr>))"
  using assms
  by (cases "net clear_request")
     (auto simp add: clearBtn_click_def fetch_def then_try_def request_failed_def)

lemma clearBtn_click_ok:
  assumes "\<not> request_failed (net clear_request)"
  shows "clearBtn_click True net p =
           showNotification ''All feedback cleared!'' ''success''
             (loadFeedback net (p\<lparr>requests := requests p @ [clear_request]\<rparr>))"
  using assms
  by (cases "net clear_request")
     (simp_all add: clearBtn_click_def fetch_def then_try_def request_failed_def)

lemma navigations_clearBtn_click:
  "navigations (clearBtn_click confirmed net p) = navigations p"
proof (cases confirmed)
  case False
  then show ?thesis by (simp add: clearBtn_click_def)
next
  case True
  show ?thesis
  proof (cases "request_failed (net clear_request)")
    case failed: True
    then show ?thesis
      using clearBtn_click_failed [of net p] True by auto
  next
    case False
    then show ?thesis
      using True by (simp add: clearBtn_click_ok)
  qed
qed

lemma navigations_handle:
  "navigations (handle net ev p) =
     navigations p @
       (if ev = LogoutClick \<or> ev = PageLoad \<and> \<not> reports_authenticated (net check_auth_request)
        then [''/login.html''] else [])"
  by (cases ev)
     (simp_all add: navigations_init navigations_logoutBtn_click
        navigations_feedbackForm_submit navigations_clearBtn_click)

lemma feedbackList_init_failed_load:
  assumes "request_failed (net get_feedback_request)"
    and "get_feedback_request \<in> set (issued p (init net p))"
  shows "feedbackList (init net p) = load_failed_html"
proof -
  have "reports_authenticated (net check_auth_request) \<and>
        renders (reported_email (net check_auth_request))"
    using assms(2)
    by (auto simp add: issued_append [OF requests_init] check_auth_request_def
        get_feedback_request_def split: if_splits)
  then obtain str where "reports_authenticated (net check_auth_request)"
    "truthy (reported_email (net check_auth_request))"
    "dom_string (reported_email (net check_auth_request)) = Inr str"
    using renders_text by blast
  then show ?thesis
    using assms(1) by (simp add: init_rendered feedbackList_loadFeedback_failed)
qed

lemma post_is_not_get: "post_of p \<noteq> get_feedback_request"
  by (simp add: post_of_def submit_request_def get_feedback_request_def)

lemma feedbackList_submit_failed_load:
  assumes "request_failed (net get_feedback_request)"
    and "get_feedback_request \<in> set (issued p (feedbackForm_submit net p))"
  shows "feedbackList (feedbackForm_submit net p) = load_failed_html"
proof -
  have sent: "\<not> fields_blank p \<and> \<not> request_failed (net (post_of p))"
    using assms(2) post_is_not_get [of p]
    by (auto simp add: issued_append [OF requests_feedbackForm_submit] split: if_splits)
  then obtain response where "net (post_of p) = Inr response" "ok response"
    by (cases "net (post_of p)") (auto simp add: request_failed_def)
  then show ?thesis
    using sent assms(1)
    by (simp add: feedbackForm_submit_ok feedbackList_loadFeedback_failed)
qed

lemma feedbackList_clear_failed_load:
  assumes "request_failed (net get_feedback_request)"
    and "get_feedback_request \<in> set (issued p (clearBtn_click confirmed net p))"
  shows "feedbackList (clearBtn_click confirmed net p) = load_failed_html"
proof -
  have sent: "confirmed \<and> \<not> request_failed (net clear_request)"
    using assms(2)
    by (auto simp add: issued_append [OF requests_clearBtn_click] clear_request_def
        get_feedback_request_def split: if_splits)
  then show ?thesis
    using assms(1) by (simp add: clearBtn_click_ok feedbackList_loadFeedback_failed)
qed

lemma feedbackList_handle_failed_load:
  assumes "request_failed (net get_feedback_request)"
    and "get_feedback_request \<in> set (issued p (handle net ev p))"
  shows "feedbackList (handle net ev p) = load_failed_html"
proof (cases ev)
  case PageLoad
  then show ?thesis
    using assms by (simp add: feedbackList_init_failed_load)
next
  case LogoutClick
  then show ?thesis
    using assms(2)
    by (simp add: issued_append [OF requests_logoutBtn_click] logout_request_def
        get_feedback_request_def)
next
  case FormSubmit
  then show ?thesis
    using assms by (simp add: feedbackList_submit_failed_load)
next
  case (ClearClick confirmed)
  then show ?thesis
    using assms by (simp add: feedbackList_clear_failed_load)
next
  case (FormInput c r m)
  then show ?thesis
    using assms(2) by (simp add: issued_def)
qed

lemma anonymous_fails:
  "request_failed (net_anonymous get_feedback_request)"
  "request_failed (net_anonymous clear_request)"
  "request_failed (net_anonymous (submit_request c r m))"
  by (simp_all add: request_failed_def net_anonymous_def get_feedback_request_def
      clear_request_def submit_request_def)

lemma list_down_fails:
  "request_failed (net_list_down get_feedback_request)"
  "\<not> request_failed (net_list_down clear_request)"
  by (simp_all add: request_failed_def net_list_down_def get_feedback_request_def
      clear_request_def)

lemma filled_page_fields [simp]:
  "courseName_value (filled_page c r m) = c"
  "rating_value (filled_page c r m) = r"
  "comments_value (filled_page c r m) = m"
  "navigations (filled_page c r m) = []"
  "notifications (filled_page c r m) = []"
  "requests (filled_page c r m) = []"
  "feedbackList (filled_page c r m) = []"
  by (simp_all add: filled_page_def page0_def)

lemma trim_padded:
  "trim ''  CS101 '' = ''CS101''" "trim '' Great course  '' = ''Great course''" "trim ''   '' = []"
  by (simp_all add: trim_def is_white_space_def)

lemma join_no_separator: "join [] xs = concat xs"
  by (induction "[] :: string" xs rule: join.induct) simp_all

lemma escapeHtml_converted:
  "dom_string v = Inr s \<Longrightarrow> escapeHtml v = Inr (escape_text s)"
  by (simp add: escapeHtml_def set_textContent_def then_try_def innerHTML_def escape_text_def)

lemma escapeHtml_string: "escapeHtml (JStr s) = Inr (escape_text s)"
  by (rule escapeHtml_converted) (simp add: dom_string_def)

lemma get_prop_object: "get_prop (JObj kvs) name = Inr (own kvs name)"
  by (simp add: own_def)

lemma render_feedback_fields:
  assumes "own kvs ''courseName'' = JStr c" and "to_string (own kvs ''rating'') = Inr r"
    and "own kvs ''comments'' = JStr m" and "to_string (own kvs ''date'') = Inr d"
  shows "render_feedback (JObj kvs) =
           Inr (item_open @ escape_text c @ item_rating_open @ r @
                item_comments_open @ escape_text m @ item_date_open @ d @ item_close)"
  using assms
  by (simp add: render_feedback_def get_prop_object escapeHtml_string then_try_def
      del: get_prop.simps)

lemma render_feedback_returned:
  assumes "is_feedback x"
  shows "render_feedback x = Inr (feedback_markup x)"
proof -
  obtain kvs where x: "x = JObj kvs"
    using assms by (cases x) (simp_all add: is_feedback_def is_object_def)
  obtain c where c: "own kvs ''courseName'' = JStr c"
    using assms x by (cases "own kvs ''courseName''") (simp_all add: is_feedback_def is_text_def field_def)
  obtain r where r: "own kvs ''rating'' = JNum r"
    using assms x by (cases "own kvs ''rating''") (simp_all add: is_feedback_def is_number_def field_def)
  obtain m where m: "own kvs ''comments'' = JStr m"
    using assms x by (cases "own kvs ''comments''") (simp_all add: is_feedback_def is_text_def field_def)
  obtain d where d: "own kvs ''date'' = JStr d"
    using assms x by (cases "own kvs ''date''") (simp_all add: is_feedback_def is_text_def field_def)
  have "render_feedback (JObj kvs) =
           Inr (item_open @ escape_text c @ item_rating_open @ number_string r @
                item_comments_open @ escape_text m @ item_date_open @ d @ item_close)"
    by (rule render_feedback_fields) (simp_all add: c r m d)
  then show ?thesis
    by (simp add: x feedback_markup_def field_def text_of_def number_of_def c r m d)
qed

lemma map_callback_returned:
  "\<forall>x \<in> set items. is_feedback x \<Longrightarrow>
     map_callback render_feedback items = Inr (map feedback_markup items)"
  by (induction items) (simp_all add: render_feedback_returned then_try_def)

lemma array_length_zero:
  "length items < 2 ^ 32 \<Longrightarrow>
     (JNum (of_nat (length items)) = JNum 0) = (items = [])"
  by (simp add: word_of_nat_eq_0_iff dvd_eq_mod_eq_0)

lemma loadFeedback_try_array:
  assumes "ok response" and "json response = Inr (JArr items)"
    and "length items < 2 ^ 32" and "\<forall>x \<in> set items. is_feedback x"
  shows "loadFeedback_try (Inr response) =
           Inr (if items = [] then empty_state_html else concat (map feedback_markup items))"
  using assms array_length_zero [of items]
  by (simp add: loadFeedback_try_def then_try_def map_callback_returned join_no_separator)

lemma items_not_empty_state:
  assumes "items \<noteq> []"
  shows "concat (map feedback_markup items) \<noteq> empty_state_html"
proof -
  obtain x rest where "items = x # rest"
    using assms by (cases items) auto
  then show ?thesis
    by (simp add: empty_state_html_def feedback_markup_def item_open_def)
qed




lemma session_list:
  "net_session items get_feedback_request = Inr \<lparr>ok = True, json = Inr (JArr items)\<rparr>"
  by (simp add: net_session_def get_feedback_request_def)

lemma is_feedback_examples: "is_feedback cs101" "is_feedback math2"
  by (simp_all add: is_feedback_def is_object_def is_text_def is_number_def field_def own_def
      cs101_def math2_def)

lemma feedback_markup_cs101:
  "feedback_markup cs101 =
     item_open @ ''CS101 &lt;intro&gt;'' @ item_rating_open @ ''5'' @
     item_comments_open @ ''Great &amp; clear'' @ item_date_open @ ''2025-11-15 10:00'' @
     item_close"
  by (simp add: feedback_markup_def cs101_def field_def own_def text_of_def number_of_def
      escape_text_def escape_char_def number_string_def show_nat.simps)

lemma feedback_markup_math2:
  "feedback_markup math2 =
     item_open @ ''Math'' @ item_rating_open @ ''4'' @
     item_comments_open @ ''ok'' @ item_date_open @ ''2025-11-14 09:30'' @
     item_close"
  by (simp add: feedback_markup_def math2_def field_def own_def text_of_def number_of_def
      escape_text_def escape_char_def number_string_def show_nat.simps)

text \<open>Where ToString throws: an own \<open>toString\<close> key, also inside an array.\<close>

lemma to_string_own_key:
  "to_string (JObj [(''toString'', v)]) = Inl TypeError"
  "to_string (JArr [JStr ''a'', JObj [(''toString'', v)]]) = Inl TypeError"
  "to_string (JObj [(''email'', v)]) = Inr ''[object Object]''"
  by (simp_all add: then_try_def)

lemma init_email_throws:
  assumes "reports_authenticated (net check_auth_request)"
    and "truthy (reported_email (net check_auth_request))"
    and "dom_string (reported_email (net check_auth_request)) = Inl e"
  shows "issued p (init net p) = [check_auth_request]"
    and "uncaught (init net p) = uncaught p @ [e]"
    and "userEmail (init net p) = userEmail p"
  using assms by (simp_all add: init_accepted issued_def)

lemma render_feedback_rating_throws:
  assumes "own kvs ''courseName'' = JStr c" and "to_string (own kvs ''rating'') = Inl e"
  shows "render_feedback (JObj kvs) = Inl e"
  using assms
  by (simp add: render_feedback_def get_prop_object escapeHtml_string then_try_def
      del: get_prop.simps)

lemma loadFeedback_item_throws:
  assumes "net get_feedback_request = Inr response" and "ok response"
    and "json response = Inr (JArr items)" and "items \<noteq> []" and "length items < 2 ^ 32"
    and "map_callback render_feedback items = Inl e"
  shows "feedbackList (loadFeedback net p) = load_failed_html"
  using assms array_length_zero [of items]
  by (simp add: feedbackList_loadFeedback loadFeedback_try_def then_try_def)

lemma set_list_feedback:
  "set (list_feedback repo owner) = {f \<in> set (rows repo). ownerId f = owner}"
  by (auto simp add: list_feedback_def)

lemma create_result:
  assumes "create repo owner cname r cmts now = Inr (f, repo')"
  shows "ownerId f = owner" and "rows repo' = rows repo @ [f]"
  using assms by (auto simp add: create_def Let_def split: if_splits)

lemma owned_rows_apply_op:
  "op_owner x \<noteq> owner \<Longrightarrow>
     filter (\<lambda>f. ownerId f = owner) (rows (apply_op x repo)) =
     filter (\<lambda>f. ownerId f = owner) (rows repo)"
proof (cases x)
  case (List other)
  then show ?thesis by simp
next
  case (Create other cname r cmts now)
  assume other: "op_owner x \<noteq> owner"
  show ?thesis
  proof (cases "create repo other cname r cmts now")
    case (Inl e)
    then show ?thesis
      using Create by simp
  next
    case (Inr made)
    then obtain f repo' where made: "create repo other cname r cmts now = Inr (f, repo')"
      by (cases made) simp
    then show ?thesis
      using Create other create_result [OF made] by simp
  qed
next
  case (ClearAll other)
  assume "op_owner x \<noteq> owner"
  then have "\<And>f. ownerId f = owner \<Longrightarrow> ownerId f \<noteq> other"
    using ClearAll by auto
  then have "filter (\<lambda>f. ownerId f = owner) (filter (\<lambda>f. ownerId f \<noteq> other) (rows repo)) =
             filter (\<lambda>f. ownerId f = owner) (rows repo)"
    by (induction "rows repo") (auto simp add: filter_id_conv intro: filter_cong)
  then show ?thesis
    using ClearAll by (simp add: clearAll_def)
qed

lemma create_cs101:
  "create repo0 1 ''CS101'' 5 ''Great course'' 10 = Inr (cs101_row, repo1)"
  by (simp add: create_def Let_def repo0_def repo1_def cs101_row_def)

lemma trim_parts:
  "\<exists>before after. s = before @ trim s @ after \<and>
     (\<forall>c \<in> set before. is_white_space c) \<and> (\<forall>c \<in> set after. is_white_space c)"
proof -
  define t where "t = dropWhile is_white_space s"
  define tail where "tail = takeWhile is_white_space (rev t)"
  have "rev t = tail @ dropWhile is_white_space (rev t)"
    by (simp add: tail_def)
  then have "rev (rev t) = rev (tail @ dropWhile is_white_space (rev t))"
    by simp
  then have t: "t = trim s @ rev tail"
    by (simp add: trim_def t_def)
  have "s = takeWhile is_white_space s @ t"
    by (simp add: t_def)
  then have "s = takeWhile is_white_space s @ trim s @ rev tail"
    using t by simp
  moreover have "\<forall>c \<in> set (takeWhile is_white_space s). is_white_space c"
    by (auto dest: set_takeWhileD)
  moreover have "\<forall>c \<in> set (rev tail). is_white_space c"
    by (auto simp add: tail_def dest: set_takeWhileD)
  ultimately show ?thesis
    by blast
qed

lemma trim_edges:
  assumes "trim s \<noteq> []"
  shows "\<not> is_white_space (hd (trim s))" and "\<not> is_white_space (last (trim s))"
proof -
  define t where "t = dropWhile is_white_space s"
  define u where "u = dropWhile is_white_space (rev t)"
  have trim: "trim s = rev u"
    by (simp add: trim_def t_def u_def)
  then have u: "u \<noteq> []"
    using assms by simp
  then have "\<not> is_white_space (hd u)"
    unfolding u_def by (rule hd_dropWhile)
  then show "\<not> is_white_space (last (trim s))"
    using u by (simp add: trim last_rev)
  have "rev t = takeWhile is_white_space (rev t) @ u"
    by (simp add: u_def)
  then have "last (rev t) = last u"
    using u by (metis last_appendR)
  moreover have "t \<noteq> []"
    using u by (auto simp add: u_def)
  ultimately have "last u = hd t"
    by (simp add: last_rev)
  moreover have "\<not> is_white_space (hd t)"
    using \<open>t \<noteq> []\<close> unfolding t_def by (rule hd_dropWhile)
  ultimately show "\<not> is_white_space (hd (trim s))"
    using u by (simp add: trim hd_rev)
qed

section \<open>The claims\<close>

subsection \<open>C1: what the submit listener posts\<close>

text \<open>
  C1 as stated asks for a rating that is an integer in [1,5]. The listener sends the
  value of the rating field as it stands: with the field at 9 the body carries the string
  9, and with the field at 5 it carries the string 5, not the number.
\<close>

theorem submit_rating_is_unchecked_string:
  "issued (filled_page ''CS101'' ''9'' ''Great course'')
     (feedbackForm_submit (net_session []) (filled_page ''CS101'' ''9'' ''Great course'')) =
     [submit_request ''CS101'' ''9'' ''Great course'', get_feedback_request] \<and>
   body_field (submit_request ''CS101'' ''9'' ''Great course'') ''rating'' = Some (JStr ''9'') \<and>
   \<not> integer_between 1 5 (JStr ''9'') \<and>
   issued (filled_page ''CS101'' ''5'' ''Great course'')
     (feedbackForm_submit (net_session []) (filled_page ''CS101'' ''5'' ''Great course'')) =
     [submit_request ''CS101'' ''5'' ''Great course'', get_feedback_request] \<and>
   body_field (submit_request ''CS101'' ''5'' ''Great course'') ''rating'' = Some (JStr ''5'') \<and>
   \<not> integer_between 1 5 (JStr ''5'')"
  by (simp add: issued_append [OF requests_feedbackForm_submit] fields_blank_def post_of_def
      trim_simple request_failed_def net_session_def submit_request_def body_field_def)

text \<open>
  C1, amended: for every submission whose courseName and comments are non-blank after
  trimming and whose rating field is non-empty, the submit listener issues POST
  /api/feedback with a JSON content type and a body with exactly the keys courseName,
  rating, comments; the rating is the rating field's value, sent unchanged as a string.
  The listener neither converts it to a number nor checks its range. A successful post is
  followed by the reload of the list.
\<close>

theorem submit_posts_three_keys:
  assumes "trim (courseName_value p) \<noteq> []" and "rating_value p \<noteq> []"
    and "trim (comments_value p) \<noteq> []"
  shows "issued p (feedbackForm_submit net p) =
           post_of p # (if request_failed (net (post_of p)) then [] else [get_feedback_request]) \<and>
         url (post_of p) = ''/api/feedback'' \<and>
         http_method (post_of p) = Some ''POST'' \<and>
         headers (post_of p) = [(''Content-Type'', ''application/json'')] \<and>
         body_keys (post_of p) = [''courseName'', ''rating'', ''comments''] \<and>
         body_field (post_of p) ''rating'' = Some (JStr (rating_value p))"
proof -
  have "\<not> fields_blank p"
    using assms by (simp add: fields_blank_def)
  then have "issued p (feedbackForm_submit net p) =
          post_of p # (if request_failed (net (post_of p)) then [] else [get_feedback_request])"
    by (simp add: issued_append [OF requests_feedbackForm_submit])
  then show ?thesis
    by (simp add: post_of_def submit_request_def body_keys_def body_field_def)
qed

text \<open>
  The round trip of section 8: CS101, 5, Great course.
\<close>

theorem submit_posts_three_keys_witness:
  "trim ''CS101'' \<noteq> [] \<and> ''5'' \<noteq> [] \<and> trim ''Great course'' \<noteq> [] \<and>
   issued (filled_page ''CS101'' ''5'' ''Great course'')
     (feedbackForm_submit (net_session []) (filled_page ''CS101'' ''5'' ''Great course'')) =
     [submit_request ''CS101'' ''5'' ''Great course'', get_feedback_request] \<and>
   body_keys (submit_request ''CS101'' ''5'' ''Great course'') =
     [''courseName'', ''rating'', ''comments''] \<and>
   body_field (submit_request ''CS101'' ''5'' ''Great course'') ''rating'' = Some (JStr ''5'')"
proof -
  have ok: "\<not> request_failed (net_session [] (submit_request ''CS101'' ''5'' ''Great course''))"
    by (simp add: request_failed_def net_session_def submit_request_def)
  show ?thesis
    using submit_posts_three_keys [of "filled_page ''CS101'' ''5'' ''Great course''" "net_session []"] ok
    by (simp add: trim_simple post_of_def)
qed

subsection \<open>C2: the authentication check on page load\<close>

text \<open>
  C2 as stated redirects whenever the check request fails. checkAuth never reads the
  status of the response: a check answered with an error status whose body still carries
  a true flag and an email is taken as authenticated, nothing is assigned to the
  location, the email is rendered and /api/feedback is requested.
\<close>

theorem check_status_is_not_consulted:
  "request_failed (net_check_not_ok check_auth_request) \<and>
   navigations (init net_check_not_ok page0) = [] \<and>
   userEmail (init net_check_not_ok page0) = ''a@x.com'' \<and>
   issued page0 (init net_check_not_ok page0) = [check_auth_request, get_feedback_request]"
proof -
  have accepted: "reports_authenticated (net_check_not_ok check_auth_request)"
    "reported_email (net_check_not_ok check_auth_request) = JStr ''a@x.com''"
    by (simp_all add: reports_authenticated_def reported_email_def net_check_not_ok_def
        check_auth_request_def)
  have failed: "request_failed (net_check_not_ok check_auth_request)"
    by (simp add: request_failed_def net_check_not_ok_def check_auth_request_def)
  have "init net_check_not_ok page0 =
          loadFeedback net_check_not_ok
            (page0\<lparr>requests := requests page0 @ [check_auth_request], userEmail := ''a@x.com''\<rparr>)"
    by (rule init_rendered) (simp_all add: accepted dom_string_def)
  then show ?thesis
    using failed by (simp add: issued_def page0_def)
qed

text \<open>
  C2, amended: on page load, when GET /api/check-auth does not report an authenticated
  visitor, that is, when its flag is falsy or the check throws (the fetch is rejected, or
  the body is not JSON or is null), init assigns /login.html, issues nothing but the check,
  and leaves the email and the list alone; the status of the response is not consulted.
  The email is rendered and /api/feedback requested only when the check reports an
  authenticated visitor; then nothing is assigned to the location, and an email that is
  truthy and converts to a string is rendered and the list loaded.
\<close>

theorem init_redirects_unless_authenticated:
  "(\<not> reports_authenticated (net check_auth_request) \<longrightarrow>
      navigations (init net p) = navigations p @ [''/login.html''] \<and>
      issued p (init net p) = [check_auth_request] \<and>
      (\<forall>r \<in> set (issued p (init net p)). url r \<noteq> ''/api/feedback'') \<and>
      userEmail (init net p) = userEmail p \<and>
      feedbackList (init net p) = feedbackList p) \<and>
   ((userEmail (init net p) \<noteq> userEmail p \<or>
     (\<exists>r \<in> set (issued p (init net p)). url r = ''/api/feedback'')) \<longrightarrow>
      reports_authenticated (net check_auth_request)) \<and>
   (reports_authenticated (net check_auth_request) \<longrightarrow>
      navigations (init net p) = navigations p \<and>
      (truthy (reported_email (net check_auth_request)) \<and>
       dom_string (reported_email (net check_auth_request)) = Inr str \<longrightarrow>
         userEmail (init net p) = str \<and>
         issued p (init net p) = [check_auth_request, get_feedback_request]))"
proof (cases "reports_authenticated (net check_auth_request)")
  case False
  have sent: "issued p (init net p) = [check_auth_request]"
    using False by (simp add: issued_append [OF requests_init])
  have other: "url check_auth_request \<noteq> ''/api/feedback''"
    by (simp add: check_auth_request_def)
  show ?thesis
    using False
    by (simp add: sent other navigations_init userEmail_init_unchanged
        feedbackList_init_rejected)
next
  case True
  have rendered: "userEmail (init net p) = str \<and>
      issued p (init net p) = [check_auth_request, get_feedback_request]"
    if "truthy (reported_email (net check_auth_request))"
      and "dom_string (reported_email (net check_auth_request)) = Inr str"
    using True that by (simp add: init_rendered issued_def)
  show ?thesis
    using True rendered by (simp add: navigations_init)
qed

text \<open>
  An anonymous visitor, a network that is down, and a visitor with a session.
\<close>

theorem init_redirects_unless_authenticated_witness:
  "\<not> reports_authenticated (net_anonymous check_auth_request) \<and>
   navigations (init net_anonymous page0) = [''/login.html''] \<and>
   issued page0 (init net_anonymous page0) = [check_auth_request] \<and>
   \<not> reports_authenticated (net_down check_auth_request) \<and>
   navigations (init net_down page0) = [''/login.html''] \<and>
   issued page0 (init net_down page0) = [check_auth_request] \<and>
   reports_authenticated (net_session [cs101] check_auth_request) \<and>
   navigations (init (net_session [cs101]) page0) = [] \<and>
   userEmail (init (net_session [cs101]) page0) = ''a@x.com'' \<and>
   issued page0 (init (net_session [cs101]) page0) = [check_auth_request, get_feedback_request]"
  using init_redirects_unless_authenticated [of net_anonymous page0]
    init_redirects_unless_authenticated [of net_down page0]
    init_redirects_unless_authenticated [of "net_session [cs101]" page0 "''a@x.com''"]
  by (simp add: anonymous_not_authenticated down_not_authenticated session_authenticated
      dom_string_def page0_def)

subsection \<open>C3: owner isolation of the repository\<close>

text \<open>
  C3: \<open>list(B)\<close> returns only feedback owned by B; a feedback created under owner A is
  listed for A and, after any further operations, never listed for another owner B; and an
  operation scoped to another owner leaves what \<open>list(A)\<close> returns unchanged, so A's
  feedback is mutable only through operations scoped to A.
\<close>

theorem owner_isolation:
  "(\<forall>g \<in> set (list_feedback repo B). ownerId g = B) \<and>
   (create repo A cname r cmts now = Inr (f, repo') \<and> B \<noteq> A \<longrightarrow>
      ownerId f = A \<and>
      f \<in> set (list_feedback repo' A) \<and>
      f \<notin> set (list_feedback (apply_ops ops repo') B)) \<and>
   (op_owner x \<noteq> A \<longrightarrow> list_feedback (apply_op x repo) A = list_feedback repo A)"
proof (intro conjI impI)
  show "\<forall>g \<in> set (list_feedback repo B). ownerId g = B"
    by (simp add: set_list_feedback)
next
  assume made: "create repo A cname r cmts now = Inr (f, repo') \<and> B \<noteq> A"
  then have owner: "ownerId f = A" and stored: "rows repo' = rows repo @ [f]"
    using create_result [of repo A cname r cmts now f repo'] by simp_all
  show "ownerId f = A"
    by (rule owner)
  show "f \<in> set (list_feedback repo' A)"
    by (simp add: set_list_feedback owner stored)
  show "f \<notin> set (list_feedback (apply_ops ops repo') B)"
    using made owner by (simp add: set_list_feedback)
next
  assume "op_owner x \<noteq> A"
  then show "list_feedback (apply_op x repo) A = list_feedback repo A"
    by (simp add: list_feedback_def owned_rows_apply_op)
qed

text \<open>
  User 1 creates the CS101 feedback; user 2 never sees it and cannot clear it.
\<close>

theorem owner_isolation_witness:
  "create repo0 1 ''CS101'' 5 ''Great course'' 10 = Inr (cs101_row, repo1) \<and>
   (2::nat) \<noteq> 1 \<and>
   list_feedback repo1 1 = [cs101_row] \<and>
   map ownerId (list_feedback repo1 1) = [1] \<and>
   cs101_row \<notin> set (list_feedback
      (apply_ops [Create 2 ''Math'' 3 ''ok'' 11, List 2, ClearAll 1, Create 1 ''CS101'' 5 ''Great course'' 10]
         repo1) 2) \<and>
   op_owner (ClearAll 2) \<noteq> 1 \<and>
   list_feedback (apply_op (ClearAll 2) repo1) 1 = [cs101_row]"
proof -
  have listed: "list_feedback repo1 1 = [cs101_row]"
    by (simp add: list_feedback_def repo1_def cs101_row_def)
  show ?thesis
    using owner_isolation [where repo = repo0 and A = 1 and B = 2 and cname = "''CS101''"
        and r = 5 and cmts = "''Great course''" and now = 10 and f = cs101_row
        and repo' = repo1
        and ops = "[Create 2 ''Math'' 3 ''ok'' 11, List 2, ClearAll 1,
                    Create 1 ''CS101'' 5 ''Great course'' 10]"]
      owner_isolation [where repo = repo1 and A = 1 and B = 1 and x = "ClearAll 2"]
      create_cs101 listed
    by simp
qed

subsection \<open>C4: credentials on every request\<close>

text \<open>
  C4: every request issued while the page handles any sequence of events, under any
  network, has \<open>credentials: 'include'\<close>: the check-auth, logout, get feedback, submit
  feedback and clear feedback requests all carry it.
\<close>

theorem every_request_includes_credentials:
  "(\<forall>r \<in> set (issued p (run evs p)). credentials r = Some ''include'') \<and>
   credentials check_auth_request = Some ''include'' \<and>
   credentials logout_request = Some ''include'' \<and>
   credentials get_feedback_request = Some ''include'' \<and>
   credentials (submit_request c r m) = Some ''include'' \<and>
   credentials clear_request = Some ''include''"
proof -
  obtain new where "requests (run evs p) = requests p @ new"
    "\<forall>r \<in> set new. credentials r = Some ''include''"
    using requests_run by blast
  then show ?thesis
    by (simp add: issued_def credentials_of_requests)
qed

text \<open>
  A whole visit issues all five kinds of request.
\<close>

theorem every_request_includes_credentials_witness:
  "map url (issued page0 (run session_events page0)) =
     [''/api/check-auth'', ''/api/feedback'', ''/api/feedback'', ''/api/feedback'',
      ''/api/feedback/clear'', ''/api/feedback'', ''/api/logout''] \<and>
   list_all (\<lambda>r. credentials r = Some ''include'') (issued page0 (run session_events page0))"
proof -
  have "map url (issued page0 (run session_events page0)) =
     [''/api/check-auth'', ''/api/feedback'', ''/api/feedback'', ''/api/feedback'',
      ''/api/feedback/clear'', ''/api/feedback'', ''/api/logout'']"
    by (simp add: session_events_def issued_def requests_init requests_feedbackForm_submit
        requests_clearBtn_click requests_logoutBtn_click session_authenticated
        fields_blank_def post_of_def request_failed_def net_session_def trim_simple
        check_auth_request_def get_feedback_request_def submit_request_def clear_request_def
        logout_request_def page0_def reports_authenticated_def reported_email_def
        renders_def dom_string_def)
  then show ?thesis
    using every_request_includes_credentials [of page0 session_events]
    by (simp add: list_all_iff)
qed

subsection \<open>C5: failures are shown, and what redirects\<close>

text \<open>
  C5 as stated lets only a failed authentication check redirect to the login view. The
  logout listener redirects as well: with the network down, a click on logout assigns
  /login.html although no authentication check was made.
\<close>

theorem logout_failure_redirects:
  "navigations page0 = [] \<and>
   navigations (handle net_down LogoutClick page0) = [''/login.html''] \<and>
   issued page0 (handle net_down LogoutClick page0) = [logout_request] \<and>
   url logout_request = ''/api/logout''"
  by (simp add: navigations_logoutBtn_click issued_append [OF requests_logoutBtn_click]
      page0_def logout_request_def)

text \<open>
  C5, amended: when the feedback load fails (fetch thrown or response not ok), the list
  shows the failure message, in whichever event the load was issued; when the submit or
  the clear request fails, an error notification is appended; none of the three assigns
  the location. A redirect to the login view is made only by the page load whose
  authentication check does not report an authenticated visitor, and by the logout
  listener.
\<close>

theorem failures_are_shown_without_redirect:
  "(request_failed (net get_feedback_request) \<longrightarrow>
      feedbackList (loadFeedback net p) = load_failed_html \<and>
      navigations (loadFeedback net p) = navigations p) \<and>
   (request_failed (net get_feedback_request) \<and>
    get_feedback_request \<in> set (issued p (handle net ev p)) \<longrightarrow>
      feedbackList (handle net ev p) = load_failed_html) \<and>
   (trim (courseName_value p) \<noteq> [] \<and> rating_value p \<noteq> [] \<and> trim (comments_value p) \<noteq> [] \<and>
    request_failed (net (post_of p)) \<longrightarrow>
      notifications (feedbackForm_submit net p) =
        notifications p @
          [\<lparr>message = ''Failed to submit feedback. Please try again.'',
            background = ''#f44336''\<rparr>] \<and>
      navigations (feedbackForm_submit net p) = navigations p) \<and>
   (request_failed (net clear_request) \<longrightarrow>
      notifications (clearBtn_click True net p) =
        notifications p @
          [\<lparr>message = ''Failed to clear feedback. Please try again.'',
            background = ''#f44336''\<rparr>] \<and>
      navigations (clearBtn_click True net p) = navigations p) \<and>
   (navigations (handle net ev p) \<noteq> navigations p \<longrightarrow>
      ev = PageLoad \<and> \<not> reports_authenticated (net check_auth_request) \<or> ev = LogoutClick)"
proof -
  have load: "request_failed (net get_feedback_request) \<longrightarrow>
      feedbackList (loadFeedback net p) = load_failed_html \<and>
      navigations (loadFeedback net p) = navigations p"
    by (simp add: feedbackList_loadFeedback_failed)
  have nested: "request_failed (net get_feedback_request) \<and>
    get_feedback_request \<in> set (issued p (handle net ev p)) \<longrightarrow>
      feedbackList (handle net ev p) = load_failed_html"
    by (simp add: feedbackList_handle_failed_load)
  have submit: "trim (courseName_value p) \<noteq> [] \<and> rating_value p \<noteq> [] \<and>
    trim (comments_value p) \<noteq> [] \<and> request_failed (net (post_of p)) \<longrightarrow>
      notifications (feedbackForm_submit net p) =
        notifications p @
          [\<lparr>message = ''Failed to submit feedback. Please try again.'',
            background = ''#f44336''\<rparr>] \<and>
      navigations (feedbackForm_submit net p) = navigations p"
    using notifications_submit_failed [of p net]
    by (simp add: fields_blank_def navigations_feedbackForm_submit)
  have clear: "request_failed (net clear_request) \<longrightarrow>
      notifications (clearBtn_click True net p) =
        notifications p @
          [\<lparr>message = ''Failed to clear feedback. Please try again.'',
            background = ''#f44336''\<rparr>] \<and>
      navigations (clearBtn_click True net p) = navigations p"
    using clearBtn_click_failed [of net p]
    by (auto simp add: navigations_clearBtn_click)
  have redirect: "navigations (handle net ev p) \<noteq> navigations p \<longrightarrow>
      ev = PageLoad \<and> \<not> reports_authenticated (net check_auth_request) \<or> ev = LogoutClick"
    by (auto simp add: navigations_handle)
  from load nested submit clear redirect show ?thesis
    by blast
qed

text \<open>
  A server without a session, and one whose list cannot be fetched.
\<close>

theorem failures_are_shown_without_redirect_witness:
  "request_failed (net_anonymous get_feedback_request) \<and>
   feedbackList (loadFeedback net_anonymous (filled_page ''CS101'' ''5'' ''Great course'')) =
     load_failed_html \<and>
   navigations (loadFeedback net_anonymous (filled_page ''CS101'' ''5'' ''Great course'')) = [] \<and>
   notifications (feedbackForm_submit net_anonymous (filled_page ''CS101'' ''5'' ''Great course'')) =
     [\<lparr>message = ''Failed to submit feedback. Please try again.'', background = ''#f44336''\<rparr>] \<and>
   navigations (feedbackForm_submit net_anonymous (filled_page ''CS101'' ''5'' ''Great course'')) = [] \<and>
   notifications (clearBtn_click True net_anonymous (filled_page ''CS101'' ''5'' ''Great course'')) =
     [\<lparr>message = ''Failed to clear feedback. Please try again.'', background = ''#f44336''\<rparr>] \<and>
   feedbackList (handle net_list_down (ClearClick True) page0) = load_failed_html \<and>
   navigations (handle net_anonymous PageLoad page0) \<noteq> navigations page0"
proof -
  have sent: "get_feedback_request \<in> set (issued page0 (handle net_list_down (ClearClick True) page0))"
    by (simp add: issued_append [OF requests_clearBtn_click] list_down_fails)
  have moved: "navigations (handle net_anonymous PageLoad page0) \<noteq> navigations page0"
    by (simp add: navigations_init anonymous_not_authenticated)
  show ?thesis
    using failures_are_shown_without_redirect
            [of net_anonymous "filled_page ''CS101'' ''5'' ''Great course''" PageLoad]
      failures_are_shown_without_redirect [of net_list_down page0 "ClearClick True"]
      failures_are_shown_without_redirect [of net_anonymous page0 PageLoad]
      sent moved
    by (simp add: anonymous_fails list_down_fails post_of_def trim_simple)
qed

subsection \<open>C6: rendering the feedback list\<close>

text \<open>
  C6: when GET /api/feedback succeeds with an array of feedback as the API returns it,
  the list shows the empty-state message if and only if the array is empty; otherwise it
  is the markup of the items, one per returned feedback in the array's order, each with
  the item's courseName, rating, comments and date. The order (newest first) is the
  server's; the frontend keeps it.
\<close>

theorem loadFeedback_renders_items:
  assumes "net get_feedback_request = Inr response"
    and "ok response"
    and "json response = Inr (JArr items)"
    and "length items < 2 ^ 32"
    and "\<forall>x \<in> set items. is_feedback x"
  shows "feedbackList (loadFeedback net p) =
           (if items = [] then empty_state_html else concat (map feedback_markup items)) \<and>
         (feedbackList (loadFeedback net p) = empty_state_html \<longleftrightarrow> items = [])"
proof -
  have shown: "feedbackList (loadFeedback net p) =
      (if items = [] then empty_state_html else concat (map feedback_markup items))"
    using assms by (simp add: feedbackList_loadFeedback loadFeedback_try_array)
  moreover have "items \<noteq> [] \<Longrightarrow> concat (map feedback_markup items) \<noteq> empty_state_html"
    by (rule items_not_empty_state)
  ultimately show ?thesis
    by auto
qed

text \<open>
  An empty list, and a list of two items.
\<close>

theorem loadFeedback_renders_items_witness:
  \<open>feedbackList (loadFeedback (net_session []) page0) = empty_state_html \<and>
   feedbackList (loadFeedback (net_session [cs101, math2]) page0) =
     (item_open @ ''CS101 &lt;intro&gt;'' @ item_rating_open @ ''5'' @
      item_comments_open @ ''Great &amp; clear'' @ item_date_open @ ''2025-11-15 10:00'' @
      item_close) @
     (item_open @ ''Math'' @ item_rating_open @ ''4'' @
      item_comments_open @ ''ok'' @ item_date_open @ ''2025-11-14 09:30'' @
      item_close) \<and>
   feedbackList (loadFeedback (net_session [cs101, math2]) page0) \<noteq> empty_state_html\<close>
proof -
  have returned: "\<forall>x \<in> set [cs101, math2]. is_feedback x"
    by (simp add: is_feedback_examples)
  show ?thesis
    using loadFeedback_renders_items
            [of "net_session []" "\<lparr>ok = True, json = Inr (JArr [])\<rparr>" "[]" page0]
      loadFeedback_renders_items
            [of "net_session [cs101, math2]" "\<lparr>ok = True, json = Inr (JArr [cs101, math2])\<rparr>"
                "[cs101, math2]" page0]
      returned
    by (simp add: session_list feedback_markup_cs101 feedback_markup_math2 item_open_def
        empty_state_html_def)
qed

subsection \<open>C7: logout\<close>

text \<open>
  C7: a click on logout issues POST /api/logout without a body, and nothing else, and
  then assigns /login.html, whatever the network answers and also when the fetch throws.
\<close>

theorem logout_always_navigates:
  "issued p (logoutBtn_click net p) = [logout_request] \<and>
   url logout_request = ''/api/logout'' \<and>
   http_method logout_request = Some ''POST'' \<and>
   body logout_request = None \<and>
   navigations (logoutBtn_click net p) = navigations p @ [''/login.html'']"
  by (simp add: logoutBtn_click_def fetch_def logout_request_def issued_def split: sum.split)

subsection \<open>C8: what is escaped in an item\<close>



subsection \<open>C9: validation in the submit listener\<close>

text \<open>
  C9 as stated refuses a rating that is empty after trimming and sends trimmed values.
  The listener does not trim the rating: a rating of one space passes the guard and is
  posted as it was entered, followed by the success notification.
\<close>

theorem blank_rating_is_posted:
  "trim '' '' = [] \<and>
   issued (filled_page ''CS101'' '' '' ''Great course'')
     (feedbackForm_submit (net_session []) (filled_page ''CS101'' '' '' ''Great course'')) =
     [submit_request ''CS101'' '' '' ''Great course'', get_feedback_request] \<and>
   body_field (submit_request ''CS101'' '' '' ''Great course'') ''rating'' = Some (JStr '' '') \<and>
   notifications
     (feedbackForm_submit (net_session []) (filled_page ''CS101'' '' '' ''Great course'')) =
     [\<lparr>message = ''Feedback submitted successfully!'', background = ''#4caf50''\<rparr>]"
proof -
  have filled: "\<not> fields_blank (filled_page ''CS101'' '' '' ''Great course'')"
    "post_of (filled_page ''CS101'' '' '' ''Great course'') =
       submit_request ''CS101'' '' '' ''Great course''"
    by (simp_all add: fields_blank_def post_of_def trim_simple)
  have answer: "net_session [] (submit_request ''CS101'' '' '' ''Great course'') =
      Inr \<lparr>ok = True, json = Inr (JObj [(''success'', JBool True)])\<rparr>"
    by (simp add: net_session_def submit_request_def)
  have "feedbackForm_submit (net_session []) (filled_page ''CS101'' '' '' ''Great course'') =
      showNotification ''Feedback submitted successfully!'' ''success''
        (loadFeedback (net_session [])
          (form_reset ((filled_page ''CS101'' '' '' ''Great course'')
             \<lparr>requests := requests (filled_page ''CS101'' '' '' ''Great course'') @
                [post_of (filled_page ''CS101'' '' '' ''Great course'')]\<rparr>)))"
    using feedbackForm_submit_ok
            [OF filled(1), of "net_session []"
               "\<lparr>ok = True, json = Inr (JObj [(''success'', JBool True)])\<rparr>"]
    by (simp add: filled(2) answer)
  then show ?thesis
    by (simp add: filled(2) issued_def body_field_def submit_request_def trim_def
        is_white_space_def)
qed

text \<open>
  C9, amended: the submit listener trims courseName and comments, and not the rating;
  when the trimmed courseName, the rating as entered or the trimmed comments is empty, it
  appends the error notification and issues no request; otherwise the request it issues
  first is the post, whose courseName and comments are the trimmed strings and whose
  rating is the field's value as entered.
\<close>

theorem submit_validates_trimmed_fields:
  "(trim (courseName_value p) = [] \<or> rating_value p = [] \<or> trim (comments_value p) = [] \<longrightarrow>
      issued p (feedbackForm_submit net p) = [] \<and>
      notifications (feedbackForm_submit net p) =
        notifications p @
          [\<lparr>message = ''Please fill in all fields'', background = ''#f44336''\<rparr>]) \<and>
   (\<not> (trim (courseName_value p) = [] \<or> rating_value p = [] \<or> trim (comments_value p) = [])
      \<longrightarrow>
      (\<exists>rest. issued p (feedbackForm_submit net p) = post_of p # rest) \<and>
      body_field (post_of p) ''courseName'' = Some (JStr (trim (courseName_value p))) \<and>
      body_field (post_of p) ''comments'' = Some (JStr (trim (comments_value p))) \<and>
      body_field (post_of p) ''rating'' = Some (JStr (rating_value p)))"
proof (cases "fields_blank p")
  case True
  then have "feedbackForm_submit net p = showNotification ''Please fill in all fields'' ''error'' p"
    by (rule feedbackForm_submit_blank)
  then show ?thesis
    using True by (simp add: fields_blank_def issued_def)
next
  case False
  have "issued p (feedbackForm_submit net p) =
          post_of p # (if request_failed (net (post_of p)) then [] else [get_feedback_request])"
    using False by (simp add: issued_append [OF requests_feedbackForm_submit])
  moreover have "body_field (post_of p) ''courseName'' = Some (JStr (trim (courseName_value p)))"
    "body_field (post_of p) ''comments'' = Some (JStr (trim (comments_value p)))"
    "body_field (post_of p) ''rating'' = Some (JStr (rating_value p))"
    by (simp_all add: body_field_def post_of_def submit_request_def)
  ultimately show ?thesis
    using False by (simp add: fields_blank_def)
qed

text \<open>
  A blank course name, and padded fields.
\<close>

theorem submit_validates_trimmed_fields_witness:
  "issued (filled_page ''   '' ''5'' ''Great course'')
     (feedbackForm_submit net_down (filled_page ''   '' ''5'' ''Great course'')) = [] \<and>
   notifications (feedbackForm_submit net_down (filled_page ''   '' ''5'' ''Great course'')) =
     [\<lparr>message = ''Please fill in all fields'', background = ''#f44336''\<rparr>] \<and>
   (\<exists>rest. issued (filled_page ''  CS101 '' ''5'' '' Great course  '')
       (feedbackForm_submit net_down (filled_page ''  CS101 '' ''5'' '' Great course  '')) =
       submit_request ''CS101'' ''5'' ''Great course'' # rest) \<and>
   body_field (submit_request ''CS101'' ''5'' ''Great course'') ''courseName'' = Some (JStr ''CS101'') \<and>
   body_field (submit_request ''CS101'' ''5'' ''Great course'') ''comments'' =
     Some (JStr ''Great course'') \<and>
   body_field (submit_request ''CS101'' ''5'' ''Great course'') ''rating'' = Some (JStr ''5'')"
  using submit_validates_trimmed_fields [of "filled_page ''   '' ''5'' ''Great course''" net_down]
    submit_validates_trimmed_fields [of "filled_page ''  CS101 '' ''5'' '' Great course  ''" net_down]
  by (simp add: trim_padded trim_simple post_of_def)

subsection \<open>C10: the confirmation before clearing\<close>

text \<open>
  C10: the clear listener issues DELETE /api/feedback/clear exactly when the user accepts
  the confirmation dialog; when the dialog is declined the page is returned as it was:
  no request, the same list.
\<close>

theorem clear_only_when_confirmed:
  "((\<exists>r \<in> set (issued p (clearBtn_click confirmed net p)).
        http_method r = Some ''DELETE'' \<and> url r = ''/api/feedback/clear'') \<longleftrightarrow> confirmed) \<and>
   (\<not> confirmed \<longrightarrow>
      issued p (clearBtn_click confirmed net p) = [] \<and>
      feedbackList (clearBtn_click confirmed net p) = feedbackList p \<and>
      clearBtn_click confirmed net p = p)"
proof (cases confirmed)
  case True
  have "issued p (clearBtn_click confirmed net p) =
          clear_request # (if request_failed (net clear_request) then [] else [get_feedback_request])"
    using True by (simp add: issued_append [OF requests_clearBtn_click])
  then show ?thesis
    using True by (simp add: clear_request_def)
next
  case False
  then have "clearBtn_click confirmed net p = p"
    by (simp add: clearBtn_click_def)
  then show ?thesis
    using False by simp
qed

text \<open>
  The dialog declined, and the dialog accepted.
\<close>

theorem clear_only_when_confirmed_witness:
  "issued page0 (clearBtn_click False (net_session []) page0) = [] \<and>
   feedbackList (clearBtn_click False (net_session []) page0) = feedbackList page0 \<and>
   (\<exists>r \<in> set (issued page0 (clearBtn_click True (net_session []) page0)).
      http_method r = Some ''DELETE'' \<and> url r = ''/api/feedback/clear'')"
  using clear_only_when_confirmed [of page0 False "net_session []"]
    clear_only_when_confirmed [of page0 True "net_session []"]
  by simp

end
